theory Spec2Isabelle
  imports Complex_Main "HOL-Library.Multiset"
begin

section \<open>The rent adjustment calculator of scripts/calc_renta.py\<close>

text \<open>
  The script fetches the monthly consumer price index, keeps the four most recent
  rows and compounds them onto the current rent. This theory embeds
  \<^verbatim>\<open>obtener_datos_ipc\<close> (the part after the HTTP response has been decoded),
  \<^verbatim>\<open>calcular_ajuste\<close> and \<^verbatim>\<open>main\<close>.

  Conventions of the embedding:
  \<^item> a Python float is a \<^typ>\<open>real\<close>: rounding is not modelled;
  \<^item> a row of the data frame is a record of its two columns; \<open>fecha\<close> is the
    timestamp as an integer (any encoding that keeps the order of the dates, the
    examples write year, month and day as one number);
  \<^item> a data frame is the list of its rows, in row order;
  \<^item> an exception is the \<open>Inl\<close> of a sum;
  \<^item> the console is a list of printed lines, passed in and returned extended; a
    line keeps the values it shows and drops their formatting.
\<close>

subsection \<open>Data\<close>

record row =
  fecha :: int
  ipc_mensual :: real

type_synonym dataframe = "row list"

text \<open>The values a module-level name of the script can be bound to.\<close>

datatype pyval =
    PFloat real
  | PStr string
  | PModule string
  | PFunction string

datatype error =
    NameError string
  | TypeError

text \<open>
  One constructor for each \<^verbatim>\<open>print\<close> of the script (and the prompt of
  \<^verbatim>\<open>input\<close>), in the order of the source.
\<close>

datatype out_line =
    Conectando
  | Titulo
  | Separador
  | Encabezado
  | Detalle int real real
  | Banner
  | Prompt
  | NumeroInvalido
  | ResultadoFinal
  | MontoAnterior real
  | AjusteTotal real
  | Regla
  | NuevoAlquiler real
  | Nota1
  | Nota2

subsection \<open>Module namespace and name lookup\<close>

definition SERIES_ID :: string where
  "SERIES_ID = ''148.3_INIVELGEN_D_A_0_26''"

definition API_URL :: string where
  "API_URL = ''https://apis.datos.gob.ar/series/api/series?ids='' @ SERIES_ID
               @ ''&limit=5000&format=json''"

text \<open>
  The names bound at module level once the script has been loaded: the four imports,
  the two constants and the three functions.
\<close>

definition module_globals :: "(string \<times> pyval) list" where
  "module_globals =
     [(''requests'', PModule ''requests''),
      (''pd'', PModule ''pandas''),
      (''datetime'', PModule ''datetime''),
      (''sys'', PModule ''sys''),
      (''SERIES_ID'', PStr SERIES_ID),
      (''API_URL'', PStr API_URL),
      (''obtener_datos_ipc'', PFunction ''obtener_datos_ipc''),
      (''calcular_ajuste'', PFunction ''calcular_ajuste''),
      (''main'', PFunction ''main'')]"

text \<open>
  A name that a function body reads and never assigns is looked up in the module
  namespace when the expression is evaluated (then in the builtins, which hold no
  name of the script's own); a miss raises \<^verbatim>\<open>NameError\<close>.
\<close>

definition load_global :: "string \<Rightarrow> error + pyval" where
  "load_global n =
     (case map_of module_globals n of
        Some v \<Rightarrow> Inr v
      | None \<Rightarrow> Inl (NameError n))"

text \<open>\<^verbatim>\<open>1 + v\<close> for a float on the left: only a number can be added.\<close>

fun py_add :: "real \<Rightarrow> pyval \<Rightarrow> error + real" where
  "py_add a (PFloat b) = Inr (a + b)"
| "py_add a (PStr s) = Inl TypeError"
| "py_add a (PModule s) = Inl TypeError"
| "py_add a (PFunction s) = Inl TypeError"

subsection \<open>obtener_datos_ipc\<close>

text \<open>
  The rows of the decoded response, sorted by date, most recent first
  (\<^verbatim>\<open>sort_values(by='fecha', ascending=False)\<close>). The request itself and the
  parsing of the two columns happen before this point and are not modelled; the
  function prints one line before the request.
\<close>

definition obtener_datos_ipc :: "row list \<Rightarrow> out_line list \<Rightarrow> out_line list \<times> dataframe" where
  "obtener_datos_ipc raw_data out =
     (let df = raw_data;
          df = sort_key (\<lambda>r. - fecha r) df
      in (out @ [Conectando], df))"

subsection \<open>calcular_ajuste\<close>

text \<open>
  \<^verbatim>\<open>pct_real = coeficiente if coeficiente < 2 else coeficiente / 100\<close>
\<close>

definition pct_real :: "real \<Rightarrow> real" where
  "pct_real coeficiente = (if coeficiente < 2 then coeficiente else coeficiente / 100)"

text \<open>
  The body of the \<^verbatim>\<open>for\<close> loop on one row, from the running factor to the new
  running factor and the line it prints. The body assigns \<open>coeficiente\<close> and then
  reads \<open>coeficientes\<close>, a name the function never assigns, so that read goes to the
  module namespace.
\<close>

definition cuerpo :: "row \<Rightarrow> real \<Rightarrow> error + (real \<times> out_line)" where
  "cuerpo fila factor_acumulado =
     (let inflacion_mensual = ipc_mensual fila;
          coeficiente = inflacion_mensual
      in case load_global ''coeficientes'' of
           Inl e \<Rightarrow> Inl e
         | Inr coeficientes \<Rightarrow>
             (case py_add 1 coeficientes of
                Inl e \<Rightarrow> Inl e
              | Inr factor_mensual \<Rightarrow>
                  (let factor_acumulado = factor_acumulado * factor_mensual;
                       pct = pct_real coeficiente;
                       factor_dia = 1 + pct;
                       factor_acumulado = factor_acumulado * factor_dia
                   in Inr (factor_acumulado, Detalle (fecha fila) (pct * 100) factor_dia))))"

text \<open>The loop over the rows: an exception in the body leaves the loop at once.\<close>

fun bucle :: "row list \<Rightarrow> real \<Rightarrow> out_line list \<Rightarrow> out_line list \<times> (error + real)" where
  "bucle [] factor_acumulado out = (out, Inr factor_acumulado)"
| "bucle (fila # filas) factor_acumulado out =
     (case cuerpo fila factor_acumulado of
        Inl e \<Rightarrow> (out, Inl e)
      | Inr (factor_acumulado', linea) \<Rightarrow> bucle filas factor_acumulado' (out @ [linea]))"

text \<open>
  \<^verbatim>\<open>df_ipc.head(4).copy()\<close>, then \<^verbatim>\<open>sort_values(by='fecha', ascending=True)\<close>:
  the first four rows of the frame as it arrives, oldest first.
\<close>

definition ultimos_4_meses :: "dataframe \<Rightarrow> dataframe" where
  "ultimos_4_meses df_ipc = sort_key fecha (take 4 df_ipc)"

definition calcular_ajuste ::
    "real \<Rightarrow> dataframe \<Rightarrow> out_line list \<Rightarrow> out_line list \<times> (error + real \<times> real)" where
  "calcular_ajuste monto_actual df_ipc out =
     (let filas = ultimos_4_meses df_ipc;
          factor_acumulado = 1;
          out = out @ [Titulo, Separador, Encabezado, Separador]
      in case bucle filas factor_acumulado out of
           (out, Inl e) \<Rightarrow> (out, Inl e)
         | (out, Inr factor_acumulado) \<Rightarrow>
             (let out = out @ [Separador];
                  nuevo_monto = monto_actual * factor_acumulado;
                  incremento_total_pct = (factor_acumulado - 1) * 100
              in (out, Inr (nuevo_monto, incremento_total_pct))))"

subsection \<open>main\<close>

text \<open>
  \<open>input_val\<close> is what \<^verbatim>\<open>float(input_val)\<close> makes of the typed text: \<open>None\<close>
  when it raises \<^verbatim>\<open>ValueError\<close>. \<open>raw_data\<close> is the decoded response. An
  exception of \<^verbatim>\<open>calcular_ajuste\<close> is not caught and ends the run.
\<close>

definition main :: "real option \<Rightarrow> row list \<Rightarrow> out_line list \<times> (error + unit)" where
  "main input_val raw_data =
     (let out = [Banner, Prompt]
      in case input_val of
           None \<Rightarrow> (out @ [NumeroInvalido], Inr ())
         | Some monto_actual \<Rightarrow>
             (let (out, df) = obtener_datos_ipc raw_data out
              in case calcular_ajuste monto_actual df out of
                   (out, Inl e) \<Rightarrow> (out, Inl e)
                 | (out, Inr (nuevo_monto, incremento_pct)) \<Rightarrow>
                     (out @ [ResultadoFinal, MontoAnterior monto_actual,
                             AjusteTotal incremento_pct, Regla,
                             NuevoAlquiler nuevo_monto, Nota1, Nota2], Inr ())))"

section \<open>Facts about the embedding\<close>

subsection \<open>Name lookup and the loop\<close>

lemma load_global_coeficientes:
  "load_global ''coeficientes'' = Inl (NameError ''coeficientes'')"
  by (simp add: load_global_def module_globals_def)

lemma cuerpo_raises: "cuerpo fila f = Inl (NameError ''coeficientes'')"
  unfolding cuerpo_def Let_def load_global_coeficientes by simp

lemma bucle_Cons_raises:
  "bucle (fila # filas) f out = (out, Inl (NameError ''coeficientes''))"
  by (simp add: cuerpo_raises)

lemma bucle_nonempty_raises:
  "filas \<noteq> [] \<Longrightarrow> bucle filas f out = (out, Inl (NameError ''coeficientes''))"
  by (cases filas) (simp_all add: cuerpo_raises)

subsection \<open>The window\<close>

lemma length_ultimos_4_meses: "length (ultimos_4_meses df) = min 4 (length df)"
  by (simp add: ultimos_4_meses_def min.commute)

lemma ultimos_4_meses_Nil_iff: "ultimos_4_meses df = [] \<longleftrightarrow> df = []"
proof -
  have "ultimos_4_meses df = [] \<longleftrightarrow> length (ultimos_4_meses df) = 0"
    by simp
  also have "\<dots> \<longleftrightarrow> df = []"
    unfolding length_ultimos_4_meses by (cases df) simp_all
  finally show ?thesis .
qed

lemma sorted_ultimos_4_meses: "sorted (map fecha (ultimos_4_meses df))"
  by (simp add: ultimos_4_meses_def)

lemma mset_ultimos_4_meses: "mset (ultimos_4_meses df) = mset (take 4 df)"
  by (simp add: ultimos_4_meses_def)

subsection \<open>The two outcomes of calcular_ajuste\<close>

lemma calcular_ajuste_empty:
  "calcular_ajuste m [] out =
     (out @ [Titulo, Separador, Encabezado, Separador, Separador], Inr (m, 0))"
  by (simp add: calcular_ajuste_def ultimos_4_meses_def)

lemma calcular_ajuste_nonempty:
  assumes "df \<noteq> []"
  shows "calcular_ajuste m df out =
     (out @ [Titulo, Separador, Encabezado, Separador], Inl (NameError ''coeficientes''))"
proof -
  from assms have "ultimos_4_meses df \<noteq> []"
    by (simp add: ultimos_4_meses_Nil_iff)
  then show ?thesis
    by (simp add: calcular_ajuste_def bucle_nonempty_raises)
qed

lemma calcular_ajuste_salida_prefijo:
  "calcular_ajuste m df out =
     (out @ fst (calcular_ajuste m df []), snd (calcular_ajuste m df []))"
  by (cases "df = []") (simp_all add: calcular_ajuste_empty calcular_ajuste_nonempty)

subsection \<open>The frame delivered by obtener_datos_ipc\<close>

lemma sorted_desc_obtener_datos_ipc:
  "sorted (map (\<lambda>r. - fecha r) (snd (obtener_datos_ipc raw out)))"
  by (simp add: obtener_datos_ipc_def)

lemma mset_obtener_datos_ipc: "mset (snd (obtener_datos_ipc raw out)) = mset raw"
  by (simp add: obtener_datos_ipc_def)

text \<open>In a frame sorted most recent first, no row after the first \<open>n\<close> is more recent
  than one of the first \<open>n\<close>.\<close>

lemma take_most_recent:
  assumes "sorted (map (\<lambda>r. - fecha r) df)"
  shows "\<forall>r\<in>set (take n df). \<forall>r'\<in>set (drop n df). fecha r' \<le> fecha r"
proof -
  from assms have "sorted_wrt (\<lambda>a b. - fecha a \<le> - fecha b) (take n df @ drop n df)"
    by (simp add: sorted_map)
  then show ?thesis
    unfolding sorted_wrt_append by auto
qed

text \<open>
  The window has min(4, number of rows) rows, the first four of the frame; on the
  frame that \<open>obtener_datos_ipc\<close> delivers no row left out is more recent than a row
  of the window.
\<close>

lemma ultimos_4_meses_window:
  "length (ultimos_4_meses df) = min 4 (length df)
   \<and> mset (ultimos_4_meses df) + mset (drop 4 df) = mset df
   \<and> (df = snd (obtener_datos_ipc raw out) \<longrightarrow>
        mset df = mset raw
        \<and> (\<forall>r\<in>set (ultimos_4_meses df). \<forall>r'\<in>set (drop 4 df). fecha r' \<le> fecha r))"
proof -
  have parts: "mset (ultimos_4_meses df) + mset (drop 4 df) = mset df"
    using mset_append [of "take 4 df" "drop 4 df"] by (simp add: mset_ultimos_4_meses)
  have recent: "\<forall>r\<in>set (ultimos_4_meses df). \<forall>r'\<in>set (drop 4 df). fecha r' \<le> fecha r"
    if "df = snd (obtener_datos_ipc raw out)"
  proof -
    from that have "sorted (map (\<lambda>r. - fecha r) df)"
      by (simp add: sorted_desc_obtener_datos_ipc)
    then have "\<forall>r\<in>set (take 4 df). \<forall>r'\<in>set (drop 4 df). fecha r' \<le> fecha r"
      by (rule take_most_recent)
    then show ?thesis
      by (simp add: ultimos_4_meses_def)
  qed
  show ?thesis
    using parts recent by (simp add: length_ultimos_4_meses mset_obtener_datos_ipc)
qed

subsection \<open>main\<close>

lemma main_None: "main None raw = ([Banner, Prompt, NumeroInvalido], Inr ())"
  by (simp add: main_def)

lemma main_Some:
  "snd (main (Some m) raw) =
     map_sum id (\<lambda>_. ())
       (snd (calcular_ajuste m (snd (obtener_datos_ipc raw [Banner, Prompt]))
              (fst (obtener_datos_ipc raw [Banner, Prompt]))))"
  by (simp add: main_def Let_def split: prod.splits sum.splits)

subsection \<open>Evaluation\<close>

lemmas run_simps = calcular_ajuste_def ultimos_4_meses_def obtener_datos_ipc_def
  cuerpo_def load_global_def module_globals_def main_def Let_def

section \<open>The claims\<close>

text \<open>
  C1. The claim: for a positive amount and a window of four periods the new amount is
  the amount times the product of the factors \<open>1 + rate\<close>. The code: on a frame of
  four periods with rates 0.01, 0.02, 0.03 and 0.04 and the amount 1000 no amount is
  computed, the call ends with \<open>NameError\<close> after the table header.
\<close>

theorem calcular_ajuste_four_periods_raises:
  "calcular_ajuste 1000
     [\<lparr>fecha = 20240401, ipc_mensual = 4 / 100\<rparr>,
      \<lparr>fecha = 20240301, ipc_mensual = 3 / 100\<rparr>,
      \<lparr>fecha = 20240201, ipc_mensual = 2 / 100\<rparr>,
      \<lparr>fecha = 20240101, ipc_mensual = 1 / 100\<rparr>] []
   = ([Titulo, Separador, Encabezado, Separador], Inl (NameError ''coeficientes''))"
  by (simp add: run_simps)

text \<open>
  C2. The end-to-end example of the specification: the amount 100000 and the raw
  values 0.04, 0.05, 0.03, 0.06 in ascending order of date (the frame holds them most
  recent first). The code returns no factor and no amount: it raises \<open>NameError\<close>.
  The normalisation of the four raw values does give the factors 1.04, 1.05, 1.03 and
  1.06; their product is 1.1922456.
\<close>

theorem calcular_ajuste_example_raises:
  "snd (calcular_ajuste 100000
          [\<lparr>fecha = 20240401, ipc_mensual = 6 / 100\<rparr>,
           \<lparr>fecha = 20240301, ipc_mensual = 3 / 100\<rparr>,
           \<lparr>fecha = 20240201, ipc_mensual = 5 / 100\<rparr>,
           \<lparr>fecha = 20240101, ipc_mensual = 4 / 100\<rparr>] [])
   = Inl (NameError ''coeficientes'')
   \<and> map (\<lambda>c. 1 + pct_real c) [4 / 100, 5 / 100, 3 / 100, 6 / 100]
       = [104 / 100, 105 / 100, 103 / 100, 106 / 100]
   \<and> prod_list (map (\<lambda>c. 1 + pct_real c) [4 / 100, 5 / 100, 3 / 100, 6 / 100])
       = 11922456 / 10000000"
  by (simp add: run_simps pct_real_def)

text \<open>
  C3. The claim: every period of the window is normalised, a raw value below 2 kept
  and one from 2 on divided by 100. The code, on a frame with the raw values 2.01 and
  1.99: the loop body raises \<open>NameError\<close> on each of the two rows before it gets to
  the normalisation, and the call ends after the table header, with no line of detail
  and no rate. The expression the body never reaches would keep 1.99 and turn 2.01
  into 0.0201 and 2 into 0.02.
\<close>

theorem calcular_ajuste_threshold_rows_raise:
  "cuerpo \<lparr>fecha = 20240101, ipc_mensual = 199 / 100\<rparr> 1 = Inl (NameError ''coeficientes'')
   \<and> cuerpo \<lparr>fecha = 20240201, ipc_mensual = 201 / 100\<rparr> 1 = Inl (NameError ''coeficientes'')
   \<and> calcular_ajuste 1000
        [\<lparr>fecha = 20240201, ipc_mensual = 201 / 100\<rparr>,
         \<lparr>fecha = 20240101, ipc_mensual = 199 / 100\<rparr>] []
     = ([Titulo, Separador, Encabezado, Separador], Inl (NameError ''coeficientes''))
   \<and> pct_real (199 / 100) = 199 / 100
   \<and> pct_real (201 / 100) = 201 / 10000
   \<and> pct_real 2 = 2 / 100"
  by (simp add: run_simps pct_real_def)

text \<open>
  C4 as stated fails: with the amount -500 and an empty frame the call returns the
  pair (-500, 0); nothing is raised.
\<close>

theorem calcular_ajuste_negative_amount_returns:
  "snd (calcular_ajuste (- 500) [] []) = Inr (- 500, 0)"
  by (simp add: run_simps)

text \<open>
  C4, amended. The amount is never checked for its sign. Replacing the amount by any
  other leaves the printed lines and the exception raised, if any, the same. The only
  amount that is turned away is text that is no number, in \<open>main\<close>, which prints a
  message and returns without calling \<open>calcular_ajuste\<close>; every number, also a
  negative one or zero, is handed on.
\<close>

theorem calcular_ajuste_amount_unchecked:
  "fst (calcular_ajuste m df out) = fst (calcular_ajuste m' df out)
   \<and> (snd (calcular_ajuste m df out) = Inl e \<longleftrightarrow> snd (calcular_ajuste m' df out) = Inl e)
   \<and> main None raw = ([Banner, Prompt, NumeroInvalido], Inr ())
   \<and> snd (main (Some m) raw) =
       map_sum id (\<lambda>_. ())
         (snd (calcular_ajuste m (snd (obtener_datos_ipc raw [Banner, Prompt]))
                (fst (obtener_datos_ipc raw [Banner, Prompt]))))"
proof -
  have "fst (calcular_ajuste m df out) = fst (calcular_ajuste m' df out)
        \<and> (snd (calcular_ajuste m df out) = Inl e
             \<longleftrightarrow> snd (calcular_ajuste m' df out) = Inl e)"
    by (cases "df = []") (simp_all add: calcular_ajuste_empty calcular_ajuste_nonempty)
  then show ?thesis
    using main_None [of raw] main_Some [of m raw] by simp
qed

theorem calcular_ajuste_amount_unchecked_witness:
  "fst (calcular_ajuste (- 500) [\<lparr>fecha = 20240101, ipc_mensual = 4 / 100\<rparr>] [])
     = fst (calcular_ajuste 500 [\<lparr>fecha = 20240101, ipc_mensual = 4 / 100\<rparr>] [])
   \<and> (snd (calcular_ajuste (- 500) [\<lparr>fecha = 20240101, ipc_mensual = 4 / 100\<rparr>] [])
         = Inl (NameError ''coeficientes'')
       \<longleftrightarrow> snd (calcular_ajuste 500 [\<lparr>fecha = 20240101, ipc_mensual = 4 / 100\<rparr>] [])
         = Inl (NameError ''coeficientes''))
   \<and> snd (main (Some (- 500)) []) = Inr ()"
  using calcular_ajuste_amount_unchecked
          [of "- 500" "[\<lparr>fecha = 20240101, ipc_mensual = 4 / 100\<rparr>]" "[]" 500
              "NameError ''coeficientes''" "[]"]
        calcular_ajuste_amount_unchecked
          [of "- 500" "[]" "[]" 500 "NameError ''coeficientes''" "[]"]
  by (simp add: run_simps)

text \<open>
  C5 as stated fails: a window whose only period has the raw value -1.5 ends with a
  \<open>NameError\<close> that names a variable, not with an error about the rate or its period.
\<close>

theorem calcular_ajuste_bad_rate_name_error:
  "snd (calcular_ajuste 1000 [\<lparr>fecha = 20240101, ipc_mensual = - 3 / 2\<rparr>] [])
   = Inl (NameError ''coeficientes'')"
  by (simp add: run_simps)

text \<open>
  C5, amended. No error of the computation depends on a rate: replacing the raw
  values of the frame by any others, also by values of -1 or less, leaves the
  exception raised, if any, the same.
\<close>

theorem calcular_ajuste_rate_unchecked:
  "snd (calcular_ajuste m (map (\<lambda>fila. fila\<lparr>ipc_mensual := g fila\<rparr>) df) out) = Inl e
   \<longleftrightarrow> snd (calcular_ajuste m df out) = Inl e"
  by (cases "df = []") (simp_all add: calcular_ajuste_empty calcular_ajuste_nonempty)

theorem calcular_ajuste_rate_unchecked_witness:
  "snd (calcular_ajuste 1000 [\<lparr>fecha = 20240101, ipc_mensual = - 3 / 2\<rparr>] [])
     = Inl (NameError ''coeficientes'')
   \<longleftrightarrow> snd (calcular_ajuste 1000 [\<lparr>fecha = 20240101, ipc_mensual = 4 / 100\<rparr>] [])
     = Inl (NameError ''coeficientes'')"
  using calcular_ajuste_rate_unchecked
          [of 1000 "\<lambda>_. - 3 / 2"
              "[\<lparr>fecha = 20240101, ipc_mensual = 4 / 100\<rparr>]" "[]"
              "NameError ''coeficientes''"]
  by simp

text \<open>
  C6 as stated fails: on the empty frame the call with the amount 1000 returns the
  pair (1000, 0) instead of failing.
\<close>

theorem calcular_ajuste_empty_returns:
  "snd (calcular_ajuste 1000 [] []) = Inr (1000, 0)"
  by (simp add: run_simps)

text \<open>
  C6, amended. For every amount, the call on an empty frame returns the amount
  unchanged and an increase of 0 percent, after printing the table header and the
  closing rule; and \<open>main\<close> on an empty response prints that result as the new rent.
\<close>

theorem calcular_ajuste_empty_frame:
  "calcular_ajuste m [] out
     = (out @ [Titulo, Separador, Encabezado, Separador, Separador], Inr (m, 0))
   \<and> main (Some m) []
     = ([Banner, Prompt, Conectando, Titulo, Separador, Encabezado, Separador, Separador,
         ResultadoFinal, MontoAnterior m, AjusteTotal 0, Regla, NuevoAlquiler m,
         Nota1, Nota2], Inr ())"
  by (simp add: run_simps)

text \<open>
  C7. The claim: a series shorter than four periods still succeeds, compounds the
  periods it has and reports their number as coverage. The code, on a frame of two
  periods: the window is the two rows, oldest first, as claimed, but the loop raises
  \<open>NameError\<close> on the first of them; the call prints the table header and returns
  nothing, so nothing is compounded and no coverage is reported.
\<close>

theorem calcular_ajuste_two_periods_raises:
  "ultimos_4_meses
     [\<lparr>fecha = 20240201, ipc_mensual = 5 / 100\<rparr>,
      \<lparr>fecha = 20240101, ipc_mensual = 4 / 100\<rparr>]
     = [\<lparr>fecha = 20240101, ipc_mensual = 4 / 100\<rparr>,
        \<lparr>fecha = 20240201, ipc_mensual = 5 / 100\<rparr>]
   \<and> calcular_ajuste 1000
        [\<lparr>fecha = 20240201, ipc_mensual = 5 / 100\<rparr>,
         \<lparr>fecha = 20240101, ipc_mensual = 4 / 100\<rparr>] []
     = ([Titulo, Separador, Encabezado, Separador], Inl (NameError ''coeficientes''))"
  by (simp add: run_simps)

text \<open>
  C8. The claim: whatever the order of the response, the four most recent periods are
  compounded oldest first. The code, on the response March 0.10, January 0.05,
  February 0.02, April 0.03: the window handed to the loop is January, February,
  March, April, as claimed, but the loop raises \<open>NameError\<close> on January and nothing is
  compounded; \<open>main\<close> ends with that exception after the table header.
\<close>

theorem main_out_of_order_raises:
  "ultimos_4_meses (snd (obtener_datos_ipc
      [\<lparr>fecha = 20240301, ipc_mensual = 10 / 100\<rparr>,
       \<lparr>fecha = 20240101, ipc_mensual = 5 / 100\<rparr>,
       \<lparr>fecha = 20240201, ipc_mensual = 2 / 100\<rparr>,
       \<lparr>fecha = 20240401, ipc_mensual = 3 / 100\<rparr>] []))
     = [\<lparr>fecha = 20240101, ipc_mensual = 5 / 100\<rparr>,
        \<lparr>fecha = 20240201, ipc_mensual = 2 / 100\<rparr>,
        \<lparr>fecha = 20240301, ipc_mensual = 10 / 100\<rparr>,
        \<lparr>fecha = 20240401, ipc_mensual = 3 / 100\<rparr>]
   \<and> bucle [\<lparr>fecha = 20240101, ipc_mensual = 5 / 100\<rparr>,
        \<lparr>fecha = 20240201, ipc_mensual = 2 / 100\<rparr>,
        \<lparr>fecha = 20240301, ipc_mensual = 10 / 100\<rparr>,
        \<lparr>fecha = 20240401, ipc_mensual = 3 / 100\<rparr>] 1 []
     = ([], Inl (NameError ''coeficientes''))
   \<and> main (Some 1000)
      [\<lparr>fecha = 20240301, ipc_mensual = 10 / 100\<rparr>,
       \<lparr>fecha = 20240101, ipc_mensual = 5 / 100\<rparr>,
       \<lparr>fecha = 20240201, ipc_mensual = 2 / 100\<rparr>,
       \<lparr>fecha = 20240401, ipc_mensual = 3 / 100\<rparr>]
     = ([Banner, Prompt, Conectando, Titulo, Separador, Encabezado, Separador],
        Inl (NameError ''coeficientes''))"
  by (simp add: run_simps)

text \<open>
  C9 as stated fails: the call is not free of output. Started on an empty console with
  the amount 1000 and an empty frame, it leaves five printed lines behind.
\<close>

theorem calcular_ajuste_prints:
  "fst (calcular_ajuste 1000 [] []) \<noteq> []
   \<and> fst (calcular_ajuste 1000 [] [])
       = [Titulo, Separador, Encabezado, Separador, Separador]"
  by (simp add: run_simps)

text \<open>
  C9, amended. The call depends on no hidden state: the amount and the frame alone
  fix the result and the lines printed, and what the console held before is kept and
  only extended. It does write to the console: every call prints the title, a rule,
  the column header and a rule before the loop.
\<close>

theorem calcular_ajuste_output:
  "calcular_ajuste m df out
     = (out @ fst (calcular_ajuste m df []), snd (calcular_ajuste m df []))
   \<and> take 4 (fst (calcular_ajuste m df [])) = [Titulo, Separador, Encabezado, Separador]"
proof -
  have "take 4 (fst (calcular_ajuste m df [])) = [Titulo, Separador, Encabezado, Separador]"
    by (cases "df = []") (simp_all add: calcular_ajuste_empty calcular_ajuste_nonempty)
  then show ?thesis
    using calcular_ajuste_salida_prefijo [of m df out] by simp
qed

text \<open>
  C10. The loop body reads \<open>coeficientes\<close>, which is bound nowhere: the lookup
  raises \<open>NameError\<close>. For every non-empty frame the window is non-empty, the first
  iteration raises, and \<open>calcular_ajuste\<close> ends with that \<open>NameError\<close>. Only the
  empty frame reaches the \<^verbatim>\<open>return\<close>, and its result is the amount unchanged
  with an increase of 0 percent.
\<close>

theorem calcular_ajuste_name_error:
  "load_global ''coeficientes'' = Inl (NameError ''coeficientes'')
   \<and> cuerpo fila f = Inl (NameError ''coeficientes'')
   \<and> (df \<noteq> [] \<longrightarrow>
        ultimos_4_meses df \<noteq> []
        \<and> snd (calcular_ajuste m df out) = Inl (NameError ''coeficientes''))
   \<and> (snd (calcular_ajuste m df out) = Inr r \<longleftrightarrow> df = [] \<and> r = (m, 0))"
proof (cases "df = []")
  case True
  then show ?thesis
    by (auto simp: load_global_coeficientes cuerpo_raises calcular_ajuste_empty)
next
  case False
  then show ?thesis
    by (simp add: load_global_coeficientes cuerpo_raises calcular_ajuste_nonempty
        ultimos_4_meses_Nil_iff)
qed

theorem calcular_ajuste_name_error_witness:
  "[\<lparr>fecha = 20240101, ipc_mensual = 4 / 100\<rparr>] \<noteq> []
   \<and> snd (calcular_ajuste 1000 [\<lparr>fecha = 20240101, ipc_mensual = 4 / 100\<rparr>] [])
       = Inl (NameError ''coeficientes'')
   \<and> snd (calcular_ajuste 1000 [] []) = Inr (1000, 0)"
  using calcular_ajuste_name_error
          [of "\<lparr>fecha = 20240101, ipc_mensual = 4 / 100\<rparr>" 1
              "[\<lparr>fecha = 20240101, ipc_mensual = 4 / 100\<rparr>]" 1000 "[]" "(1000, 0)"]
        calcular_ajuste_name_error
          [of "\<lparr>fecha = 20240101, ipc_mensual = 4 / 100\<rparr>" 1 "[]" 1000 "[]" "(1000, 0)"]
  by simp

end
